theory Spec2Isabelle
  imports Main "HOL-Library.Multiset"
begin

section \<open>Release content extraction: a shallow embedding of \<^verbatim>\<open>cli/lib/extract.js\<close>\<close>

text \<open>
  The module exports one operation, \<^verbatim>\<open>unpackRelease\<close>, built from the local functions
  \<^verbatim>\<open>resolveRelease\<close>, \<^verbatim>\<open>getNav\<close>, \<^verbatim>\<open>unpackTarball\<close>, \<^verbatim>\<open>unpackTree\<close> and
  \<^verbatim>\<open>writeChangelog\<close>. Each of them is translated below under its own name.

  Conventions of the embedding:
  \<^item> a JavaScript value that may be \<^verbatim>\<open>undefined\<close> or \<^verbatim>\<open>null\<close> is an \<open>option\<close>
    (\<open>None\<close> stands for both; the source tests them alike with \<^verbatim>\<open>?.\<close>, \<^verbatim>\<open>??\<close>
    and \<^verbatim>\<open>!\<close>);
  \<^item> the collaborators the module requires (\<^verbatim>\<open>./gh\<close>, \<^verbatim>\<open>./transform\<close>, \<^verbatim>\<open>pacote\<close>,
    \<^verbatim>\<open>yaml\<close>) are fields of an environment record: each is the answer the collaborator
    gives, as a function of its arguments. A collaborator that rejects makes the import
    throw; that case is not part of the model. The \<^verbatim>\<open>tar\<close> library is defined as far as
    its releases agree (see \<open>tar_entry_path\<close>);
  \<^item> an exception raised by the module's own code (a \<^verbatim>\<open>throw\<close>, or a property read
    from \<^verbatim>\<open>undefined\<close>) is a value of type \<open>error\<close>, returned with \<open>Inl\<close>;
  \<^item> the file system is not modelled as a store: each function returns the log of the
    file-system calls it made, as a list of phases (see \<open>phase\<close>);
  \<^item> \<^verbatim>\<open>path.sep\<close>, \<^verbatim>\<open>path.join\<close> and \<^verbatim>\<open>path.dirname\<close> are the POSIX ones (the
    module runs on a POSIX host), so \<^verbatim>\<open>sep\<close> and \<^verbatim>\<open>posix.sep\<close> are both \<^verbatim>\<open>/\<close>.
\<close>

subsection \<open>Strings and paths (Node's \<^verbatim>\<open>String\<close> and \<^verbatim>\<open>path.posix\<close>)\<close>

definition sep :: char where
  "sep = CHR ''/''"

text \<open>\<^verbatim>\<open>s.split(c)\<close> for a one-character separator: never the empty array.\<close>

fun split :: "char \<Rightarrow> string \<Rightarrow> string list" where
  "split c [] = [[]]"
| "split c (x # xs) =
     (if x = c then [] # split c xs
      else (case split c xs of
              [] \<Rightarrow> [[x]]
            | y # ys \<Rightarrow> (x # y) # ys))"

text \<open>\<^verbatim>\<open>parts.join('/')\<close> of an array of strings.\<close>

fun joinWith :: "string list \<Rightarrow> string" where
  "joinWith [] = []"
| "joinWith [s] = s"
| "joinWith (s # t # ss) = s @ sep # joinWith (t # ss)"

text \<open>\<^verbatim>\<open>xs.slice(a, b)\<close> for \<open>0 \<le> a \<le> b\<close>.\<close>

definition slice :: "nat \<Rightarrow> nat \<Rightarrow> 'a list \<Rightarrow> 'a list" where
  "slice a b xs = take (b - a) (drop a xs)"

text \<open>
  \<^verbatim>\<open>normalizeString\<close> of Node's path module, segment by segment: an empty segment and
  \<^verbatim>\<open>.\<close> are dropped; \<^verbatim>\<open>..\<close> removes the segment before it, unless there is none or
  it is \<^verbatim>\<open>..\<close> itself, in which case it is kept when the path is relative
  (\<open>allowAboveRoot\<close>) and dropped otherwise. The accumulator holds the result so far,
  last segment first.
\<close>

fun normalizeString :: "bool \<Rightarrow> string list \<Rightarrow> string list \<Rightarrow> string list" where
  "normalizeString allowAboveRoot res [] = rev res"
| "normalizeString allowAboveRoot res (s # ss) =
     (if s = [] \<or> s = ''.'' then normalizeString allowAboveRoot res ss
      else if s = ''..'' then
        (case res of
           [] \<Rightarrow> normalizeString allowAboveRoot (if allowAboveRoot then [''..''] else []) ss
         | t # ts \<Rightarrow>
             if t \<noteq> ''..'' then normalizeString allowAboveRoot ts ss
             else normalizeString allowAboveRoot
                    (if allowAboveRoot then ''..'' # res else res) ss)
      else normalizeString allowAboveRoot (s # res) ss)"

text \<open>\<^verbatim>\<open>posix.normalize(path)\<close>.\<close>

definition normalize :: "string \<Rightarrow> string" where
  "normalize path =
     (if path = [] then ''.''
      else
        let isAbsolute = (hd path = sep);
            trailingSeparator = (last path = sep);
            p = joinWith (normalizeString (\<not> isAbsolute) [] (split sep path))
        in if p = [] then
             (if isAbsolute then ''/'' else if trailingSeparator then ''./'' else ''.'')
           else (if isAbsolute then ''/'' else []) @ p
                @ (if trailingSeparator then ''/'' else []))"

text \<open>
  \<^verbatim>\<open>posix.join(...args)\<close>: the non-empty arguments joined by \<^verbatim>\<open>/\<close> and normalised;
  \<^verbatim>\<open>.\<close> when there is nothing to join.
\<close>

definition join :: "string list \<Rightarrow> string" where
  "join args =
     (let joined = filter (\<lambda>arg. arg \<noteq> []) args
      in if joined = [] then ''.'' else normalize (joinWith joined))"

text \<open>
  \<^verbatim>\<open>posix.dirname(path)\<close>: scanning from the end down to index 1, the trailing
  separators and then the last segment are skipped; the path up to the separator found
  there is returned. With no such separator the result is \<^verbatim>\<open>/\<close> or \<^verbatim>\<open>.\<close>.
\<close>

definition dirname :: "string \<Rightarrow> string" where
  "dirname path =
     (if path = [] then ''.''
      else
        let hasRoot = (hd path = sep);
            r = dropWhile (\<lambda>c. c \<noteq> sep) (dropWhile (\<lambda>c. c = sep) (rev (tl path)))
        in if r = [] then (if hasRoot then ''/'' else ''.'')
           else if hasRoot \<and> tl r = [] then ''//''
           else hd path # rev (tl r))"

text \<open>
  \<^verbatim>\<open>posix.basename(path)\<close>: the last segment, trailing separators ignored; empty when
  the path has no segment.
\<close>

definition basename :: "string \<Rightarrow> string" where
  "basename path =
     rev (takeWhile (\<lambda>c. c \<noteq> sep) (dropWhile (\<lambda>c. c = sep) (rev path)))"

text \<open>
  \<^verbatim>\<open>[...new Set(xs)]\<close>: the distinct elements of \<open>xs\<close> in the order of their first
  occurrence.
\<close>

fun uniq :: "'a list \<Rightarrow> 'a list" where
  "uniq [] = []"
| "uniq (x # xs) = x # filter (\<lambda>y. y \<noteq> x) (uniq xs)"

subsection \<open>Data model\<close>

record manifest =
  m_resolved :: "string option"
  m_from :: "string option"

record release =
  id' :: string
  version :: string
  branch :: string
  manifest :: manifest
  resolved :: "string option"
  spec :: "string option"
  useBranch :: bool
  prerelease :: bool
  url :: string
  urlPrefix :: string
  src :: "string option"

text \<open>
  A navigation node as \<^verbatim>\<open>yaml.parse\<close> delivers it. \<open>children = None\<close> is a node without
  a child sequence; \<open>Some []\<close> is an empty one.
\<close>

datatype navNode =
  NavNode (title: string) (nurl: string) (shortName: "string option")
          (description: "string option") (children: "navNode list option")

record nav =
  npath :: "string option"
  nchildren :: "navNode list option"

text \<open>A file of the remote tree, and an entry of a remote directory listing.\<close>

record fileRecord =
  fpath :: string
  fsha :: string

record dirEntry =
  dname :: string
  dsha :: string

text \<open>An entry of the packaged archive.\<close>

record tarEntry =
  tpath :: string
  tcontent :: string

text \<open>The options of the content transform.\<close>

record frontmatter =
  github_path :: "string option"
  fm_title :: string
  fm_shortName :: "string option"

record transformOpts =
  t_release :: release
  t_path :: string
  t_frontmatter :: "frontmatter option"

datatype error =
  TypeError
| Error string

text \<open>The calls made to \<^verbatim>\<open>fs/promises\<close>, and to the file system by \<^verbatim>\<open>tar\<close>.\<close>

datatype fs_op =
  Rm string
| Mkdir string
| WriteFile string string

text \<open>
  A phase of the log: \<open>Seq\<close> holds calls made one after the other (each awaited before
  the next starts); \<open>Par\<close> holds calls started together under one \<^verbatim>\<open>Promise.all\<close>,
  which complete in any order. Phases follow each other: a phase starts when the one
  before it has completed. \<open>Bg\<close> holds calls that nothing awaits: they are started where
  the phase stands and complete in any order, at any time from then on, while the later
  phases run.
\<close>

datatype phase =
  Seq "fs_op list"
| Par "fs_op list"
| Bg "fs_op list"

text \<open>
  The collaborators. Two fields describe \<^verbatim>\<open>tar\<close> in the run at hand: \<open>tarProgress\<close> is the
  number of entries it has handed to the \<^verbatim>\<open>transform\<close> option at the moment the archive's
  source stream ends, and \<open>tarIrregular\<close> is what it makes of a path on which its
  releases differ (see \<open>tar_entry_path\<close>).
\<close>

record env =
  getLatestSha :: "string \<Rightarrow> string"
  getDirectory :: "string \<Rightarrow> string \<Rightarrow> dirEntry list"
  getAllFiles :: "string \<Rightarrow> fileRecord list"
  getFileSha :: "string \<Rightarrow> string"
  getFileRef :: "string \<Rightarrow> string option \<Rightarrow> string"
  pathExists :: "string \<Rightarrow> string \<Rightarrow> string option"
  tarball :: "string option \<Rightarrow> string option \<Rightarrow> tarEntry list"
  tarProgress :: nat
  tarIrregular :: "string \<Rightarrow> nat \<Rightarrow> string \<Rightarrow> string option"
  yaml_parse :: "string \<Rightarrow> navNode list option"
  transform_stream :: "transformOpts \<Rightarrow> string \<Rightarrow> string"
  transform_sync :: "string \<Rightarrow> transformOpts \<Rightarrow> string"

record options =
  contentPath :: string
  baseNav :: "navNode list"
  force :: bool
  opt_prerelease :: bool

subsection \<open>\<^verbatim>\<open>resolveRelease\<close>\<close>

text \<open>
  The argument's \<^verbatim>\<open>resolved\<close> field is taken out as \<^verbatim>\<open>current\<close>; the rest of the
  release is copied, given its new \<^verbatim>\<open>resolved\<close> (and, for a release that is not
  branch-based, its \<^verbatim>\<open>spec\<close>), and returned unless one of the two gates answers
  \<^verbatim>\<open>null\<close>.
\<close>

definition resolveRelease :: "env \<Rightarrow> release \<Rightarrow> bool \<Rightarrow> bool \<Rightarrow> release option" where
  "resolveRelease e r frc pre =
     (let current = resolved r in
      if prerelease r \<and> \<not> pre then None
      else
        let release =
              (if useBranch r then r\<lparr>resolved := Some (getLatestSha e (branch r))\<rparr>
               else r\<lparr>resolved := m_resolved (manifest r), spec := m_from (manifest r)\<rparr>)
        in if resolved release = current \<and> \<not> frc then None
           else Some release)"

subsection \<open>\<^verbatim>\<open>unpackTarball\<close>\<close>

text \<open>
  The options object handed to \<^verbatim>\<open>tar.x\<close>. The \<^verbatim>\<open>transform\<close> option of the source does
  two things with the path it is called with: it appends the path to \<^verbatim>\<open>result\<close>, and it
  returns the stream transformer for that path. The first is the list \<open>tar_x\<close> returns,
  the second is \<open>o_transform\<close>.
\<close>

record tarOpts =
  o_cwd :: string
  o_strip :: nat
  o_transform :: "string \<Rightarrow> string \<Rightarrow> string"
  o_filter :: "string \<Rightarrow> bool"

text \<open>
  A path on which all releases of \<^verbatim>\<open>tar\<close> agree, given the number of segments to strip:
  it has no empty segment (so it is relative, and has neither a double nor a trailing
  separator), and what is left after stripping is at most 1024 segments deep.
\<close>

definition tar_regular :: "nat \<Rightarrow> string \<Rightarrow> bool" where
  "tar_regular n path =
     ([] \<notin> set (split sep path) \<and> length (split sep path) - n \<le> 1024)"

text \<open>
  The name under which \<^verbatim>\<open>tar\<close> extracts the file entry at \<open>path\<close>, if it extracts it, for
  the options \<^verbatim>\<open>cwd\<close> and \<^verbatim>\<open>strip\<close> and the default \<^verbatim>\<open>preservePaths: false\<close>:
  \<^item> the given number of leading segments is removed, and a path with fewer segments is
    skipped;
  \<^item> a path that still has a \<^verbatim>\<open>..\<close> segment is not extracted;
  \<^item> on an absolute path, a path with an empty segment or a path deeper than 1024
    segments the releases of the library differ (the root is stripped from the path
    before or after \<^verbatim>\<open>strip\<close> is applied, the depth limit is recent): the environment
    answers for these;
  \<^item> a file that would take the place of \<^verbatim>\<open>cwd\<close> itself (nothing is left of the path,
    or \<^verbatim>\<open>.\<close> segments only) is not extracted;
  \<^item> any other entry is extracted under what is left of its path.
\<close>

definition tar_entry_path :: "env \<Rightarrow> string \<Rightarrow> nat \<Rightarrow> string \<Rightarrow> string option" where
  "tar_entry_path e cwd n path =
     (let parts = split sep path;
          rest = drop n parts
      in if length parts < n then None
         else if ''..'' \<in> set rest then None
         else if \<not> tar_regular n path then tarIrregular e cwd n path
         else if list_all (\<lambda>s. s = ''.'') rest then None
         else Some (joinWith rest))"

text \<open>
  What \<^verbatim>\<open>tar.x(opts)\<close> does with one entry of an archive of regular files: \<^verbatim>\<open>filter\<close> sees
  the entry's path as it is in the archive, and an entry it rejects is skipped; the path
  is then stripped and checked; the \<^verbatim>\<open>transform\<close> is called with the resulting path, and
  what it makes of the entry's content is written at that path under \<^verbatim>\<open>cwd\<close>. The answer
  is the path \<^verbatim>\<open>transform\<close> was called with and the write, or nothing for an entry that is
  skipped.
\<close>

definition tar_entry :: "env \<Rightarrow> tarOpts \<Rightarrow> tarEntry \<Rightarrow> (string \<times> fs_op) option" where
  "tar_entry e opts entry =
     (if o_filter opts (tpath entry) then
        (case tar_entry_path e (o_cwd opts) (o_strip opts) (tpath entry) of
           None \<Rightarrow> None
         | Some path \<Rightarrow>
             Some (path,
                   WriteFile (join [o_cwd opts, path])
                     (o_transform opts path (tcontent entry))))
      else None)"

text \<open>
  \<^verbatim>\<open>tar.x(opts)\<close> fed with the whole archive: the entries are taken in stream order. The
  result is the list of paths \<^verbatim>\<open>transform\<close> is called with, and the writes.
\<close>

definition tar_x :: "env \<Rightarrow> tarOpts \<Rightarrow> tarEntry list \<Rightarrow> string list \<times> fs_op list" where
  "tar_x e opts entries =
     (let extracted = List.map_filter (tar_entry e opts) entries
      in (map fst extracted, map snd extracted))"

text \<open>The \<^verbatim>\<open>filter\<close> closure of \<^verbatim>\<open>unpackTarball\<close>, for the directory \<open>dir\<close>.\<close>

definition tarball_filter :: "string \<Rightarrow> string \<Rightarrow> bool" where
  "tarball_filter dir path =
     (let strip = 1;
          dirParts = split sep dir;
          pathParts = split sep path;
          prefixParts = slice strip (length dirParts + strip) pathParts
      in join prefixParts = join dirParts)"

text \<open>The options \<^verbatim>\<open>unpackTarball\<close> builds.\<close>

definition tarballOpts :: "env \<Rightarrow> release \<Rightarrow> string \<Rightarrow> string \<Rightarrow> tarOpts" where
  "tarballOpts e release cwd dir =
     (let strip = 1;
          dirParts = split sep dir
      in \<lparr>o_cwd = cwd,
          o_strip = length dirParts + strip,
          o_transform = (\<lambda>path. transform_stream e
             \<lparr>t_release = release, t_path = path, t_frontmatter = None\<rparr>),
          o_filter = tarball_filter dir\<rparr>)"

text \<open>
  The promise \<^verbatim>\<open>unpackTarball\<close> awaits is settled by the \<^verbatim>\<open>end\<close> of the archive's source
  stream, not by the end of the extraction: the function returns the \<^verbatim>\<open>result\<close> array
  when the source has been read, with the paths \<^verbatim>\<open>tar\<close> has reached by then, a prefix of
  those it will extract. The array is filled further afterwards, and the writes complete
  in the background.
\<close>

definition unpackTarball ::
  "env \<Rightarrow> release \<Rightarrow> string \<Rightarrow> string \<Rightarrow> string list \<times> phase list" where
  "unpackTarball e release cwd dir =
     (let (result, writes) =
            tar_x e (tarballOpts e release cwd dir)
              (tarball e (spec release) (resolved release))
      in (take (tarProgress e) result, [Bg writes]))"



subsection \<open>\<^verbatim>\<open>unpackTree\<close>\<close>

text \<open>
  The directory's entry is looked up in the listing of its parent; \<^verbatim>\<open>.sha\<close> read from a
  failed \<^verbatim>\<open>find\<close> is a \<^verbatim>\<open>TypeError\<close>. The directories are created under one
  \<^verbatim>\<open>Promise.all\<close>, which is awaited; the files are then fetched and written under a
  second one.
\<close>

definition unpackTree ::
  "env \<Rightarrow> release \<Rightarrow> string \<Rightarrow> string \<Rightarrow> (error + string list) \<times> phase list" where
  "unpackTree e release cwd dir =
     (let dirParts = split sep dir;
          child = last dirParts;
          parent = join (butlast dirParts)
      in case find (\<lambda>p. dname p = child) (getDirectory e (branch release) parent) of
           None \<Rightarrow> (Inl TypeError, [])
         | Some d \<Rightarrow>
             let files = getAllFiles e (dsha d);
                 dirs = uniq (map (\<lambda>f. join [cwd, dirname (fpath f)]) files)
             in (Inr (map fpath files),
                 [Par (map Mkdir dirs),
                  Par (map (\<lambda>file.
                         WriteFile (join [cwd, fpath file])
                           (transform_sync e (getFileSha e (fsha file))
                              \<lparr>t_release = release, t_path = fpath file,
                               t_frontmatter = None\<rparr>))
                       files)]))"

subsection \<open>\<^verbatim>\<open>getNav\<close>\<close>

text \<open>
  \<^verbatim>\<open>rewriteUrls\<close>: \<^verbatim>\<open>nodes?.map(...)\<close> answers \<^verbatim>\<open>undefined\<close> for a missing sequence;
  each node of a present one gets its \<^verbatim>\<open>url\<close> prefixed and its \<^verbatim>\<open>children\<close> rewritten.
  The parsed description is a tree of values: no node is shared between two places.
\<close>

function rewriteUrls :: "release \<Rightarrow> navNode list option \<Rightarrow> navNode list option" where
  "rewriteUrls release None = None"
| "rewriteUrls release (Some nodes) =
     Some (map (\<lambda>n. NavNode (title n) (url release @ nurl n) (shortName n) (description n)
                       (rewriteUrls release (children n)))
             nodes)"
  by pat_completeness auto
termination
proof (relation "measure (\<lambda>(release, nodes). size_option (size_list size) nodes)")
  show "wf (measure (\<lambda>(release, nodes). size_option (size_list size) nodes))"
    by simp
next
  fix release :: release and nodes :: "navNode list" and n :: navNode
  assume "n \<in> set nodes"
  then have "size n \<le> size_list size nodes"
    by (simp add: size_list_estimation')
  moreover have "size_option (size_list size) (children n) < size n"
    by (cases n) simp
  ultimately show "((release, children n), (release, Some nodes))
      \<in> measure (\<lambda>(release, nodes). size_option (size_list size) nodes)"
    by simp
qed

definition getNav :: "env \<Rightarrow> string option \<Rightarrow> release \<Rightarrow> nav" where
  "getNav e path release =
     (let nav = getFileRef e (branch release) path
      in \<lparr>npath = path, nchildren = rewriteUrls release (yaml_parse e nav)\<rparr>)"

text \<open>
  Two ways of looking at a navigation tree: the list of its nodes in document order
  (every node before its children, siblings in their order), and the tree with every
  \<^verbatim>\<open>url\<close> blanked, which keeps the shape and all the other fields.
\<close>

function nodes_of :: "navNode list option \<Rightarrow> navNode list" where
  "nodes_of None = []"
| "nodes_of (Some nodes) = concat (map (\<lambda>n. n # nodes_of (children n)) nodes)"
  by pat_completeness auto
termination
proof (relation "measure (size_option (size_list size))")
  show "wf (measure (size_option (size_list size)))"
    by simp
next
  fix nodes :: "navNode list" and n :: navNode
  assume "n \<in> set nodes"
  then have "size n \<le> size_list size nodes"
    by (simp add: size_list_estimation')
  moreover have "size_option (size_list size) (children n) < size n"
    by (cases n) simp
  ultimately show "(children n, Some nodes) \<in> measure (size_option (size_list size))"
    by simp
qed

function erase_urls :: "navNode list option \<Rightarrow> navNode list option" where
  "erase_urls None = None"
| "erase_urls (Some nodes) =
     Some (map (\<lambda>n. NavNode (title n) [] (shortName n) (description n)
                       (erase_urls (children n)))
             nodes)"
  by pat_completeness auto
termination
proof (relation "measure (size_option (size_list size))")
  show "wf (measure (size_option (size_list size)))"
    by simp
next
  fix nodes :: "navNode list" and n :: navNode
  assume "n \<in> set nodes"
  then have "size n \<le> size_list size nodes"
    by (simp add: size_list_estimation')
  moreover have "size_option (size_list size) (children n) < size n"
    by (cases n) simp
  ultimately show "(children n, Some nodes) \<in> measure (size_option (size_list size))"
    by simp
qed

subsection \<open>\<^verbatim>\<open>writeChangelog\<close>\<close>

definition backslash :: char where
  "backslash = CHR 0x5C"

text \<open>
  \<^verbatim>\<open>s.replace(/([^\\])>/g, '$1\\>')\<close>: the matches are found from left to right, each
  search starting where the match before it ended. At a position that holds a character
  other than the backslash followed by \<^verbatim>\<open>>\<close>, the two are replaced by the character,
  a backslash and \<^verbatim>\<open>>\<close>, and the search goes on after them; otherwise the character
  is copied and the search goes on at the next position.
\<close>

fun escape :: "string \<Rightarrow> string" where
  "escape (c # d # s) =
     (if c \<noteq> backslash \<and> d = CHR ''>'' then c # backslash # CHR ''>'' # escape s
      else c # escape (d # s))"
| "escape s = s"

text \<open>
  \<^verbatim>\<open>nav.children[nav.children.length - 1].children.push(node)\<close>: a \<^verbatim>\<open>TypeError\<close> when
  the navigation has no child sequence, when the sequence is empty, or when its last
  node has no child sequence.
\<close>

definition push_last :: "nav \<Rightarrow> navNode \<Rightarrow> error + nav" where
  "push_last nav node =
     (case nchildren nav of
        None \<Rightarrow> Inl TypeError
      | Some sections \<Rightarrow>
          if sections = [] then Inl TypeError
          else (case children (last sections) of
                  None \<Rightarrow> Inl TypeError
                | Some cs \<Rightarrow>
                    Inr (nav\<lparr>nchildren := Some (butlast sections @
                      [NavNode (title (last sections)) (nurl (last sections))
                         (shortName (last sections)) (description (last sections))
                         (Some (cs @ [node]))])\<rparr>)))"

definition writeChangelog ::
  "env \<Rightarrow> release \<Rightarrow> nav \<Rightarrow> string \<Rightarrow> string \<Rightarrow> string \<Rightarrow> (error + nav) \<times> phase list" where
  "writeChangelog e release nav cwd srcPath' contentPath' =
     (let title = ''Changelog'';
          changelog = getFileRef e (branch release) (Some srcPath');
          written =
            WriteFile (join [cwd, contentPath' @ ''.md''])
              (transform_sync e (escape changelog)
                 \<lparr>t_release = release, t_path = contentPath',
                  t_frontmatter = Some \<lparr>github_path = Some srcPath', fm_title = title,
                                        fm_shortName = None\<rparr>\<rparr>)
      in (push_last nav
            (NavNode title (url release @ ''/'' @ contentPath') None
               (Some ''Changelog notes for each version'') None),
          [Seq [written]]))"

subsection \<open>\<^verbatim>\<open>unpackRelease\<close>\<close>

definition builtPath :: string where
  "builtPath = join [''docs'', ''content'']"

definition srcPath :: string where
  "srcPath = join [''docs'', ''lib'', ''content'']"

text \<open>The body of an index page: \<^verbatim>\<open><Index depth="1" />\<close> and a line feed.\<close>

definition indexBody :: string where
  "indexBody = ''<Index depth='' @ [CHR 0x22] @ ''1'' @ [CHR 0x22] @ '' />'' @ [CHR 0x0A]"

text \<open>
  The node an index page takes its title from: for the root directory (the empty
  string, which is falsy) it is sought in \<^verbatim>\<open>baseNav\<close>, for any other directory in
  \<^verbatim>\<open>nav.children\<close>. \<^verbatim>\<open>find\<close> answers \<^verbatim>\<open>undefined\<close> when no entry matches.
\<close>

definition navSection ::
  "release \<Rightarrow> nav \<Rightarrow> navNode list \<Rightarrow> string \<Rightarrow> error + navNode option" where
  "navSection release nav baseNav' dir =
     (if dir \<noteq> [] then
        (case nchildren nav of
           None \<Rightarrow> Inl TypeError
         | Some cs \<Rightarrow> Inr (find (\<lambda>c. basename (nurl c) = dir) cs))
      else Inr (find (\<lambda>c. basename (nurl c) = urlPrefix release) baseNav'))"

text \<open>
  The function mapped over \<^verbatim>\<open>dirs\<close>: it answers the path of the index page and the
  write it started, or the \<^verbatim>\<open>TypeError\<close> of reading \<^verbatim>\<open>title\<close> from \<^verbatim>\<open>undefined\<close>.
\<close>

definition writeIndex ::
  "env \<Rightarrow> release \<Rightarrow> nav \<Rightarrow> navNode list \<Rightarrow> string \<Rightarrow> string \<Rightarrow> error + string \<times> fs_op" where
  "writeIndex e release nav baseNav' cwd dir =
     (let path = join [dir, ''index.mdx'']
      in case navSection release nav baseNav' dir of
           Inl err \<Rightarrow> Inl err
         | Inr None \<Rightarrow> Inl TypeError
         | Inr (Some section) \<Rightarrow>
             Inr (path,
                  WriteFile (join [cwd, path])
                    (transform_sync e indexBody
                       \<lparr>t_release = release, t_path = path,
                        t_frontmatter = Some \<lparr>github_path = npath nav,
                                              fm_title = title section,
                                              fm_shortName = shortName section\<rparr>\<rparr>)))"

text \<open>\<^verbatim>\<open>['', ...new Set(files.map((f) => dirname(f)))]\<close>.\<close>

definition indexDirs :: "string list \<Rightarrow> string list" where
  "indexDirs files = [] # uniq (map dirname files)"

text \<open>
  The index pages: the function is started for every directory in turn, so the writes of
  the directories that have a node are started even when another directory has none;
  \<^verbatim>\<open>Promise.all\<close> then rejects with the error.
\<close>

definition writeIndexes ::
  "env \<Rightarrow> release \<Rightarrow> nav \<Rightarrow> navNode list \<Rightarrow> string \<Rightarrow> string list
     \<Rightarrow> (error + string list) \<times> phase list" where
  "writeIndexes e release nav baseNav' cwd dirs =
     (let indexes = map (writeIndex e release nav baseNav' cwd) dirs;
          started = [Par (map (\<lambda>i. snd (projr i)) (filter (\<lambda>i. \<not> isl i) indexes))]
      in case find isl indexes of
           Some i \<Rightarrow> (Inl (projl i), started)
         | None \<Rightarrow> (Inr (map (\<lambda>i. fst (projr i)) indexes), started))"

text \<open>
  The step that extracts the files: the tree of \<^verbatim>\<open>release.src\<close> for a branch-based
  release, the archive's \<open>builtPath\<close> otherwise.
\<close>

definition extractFiles ::
  "env \<Rightarrow> release \<Rightarrow> string \<Rightarrow> string \<Rightarrow> (error + string list) \<times> phase list" where
  "extractFiles e release cwd src_dir =
     (if useBranch release then unpackTree e release cwd src_dir
      else (let (files, log) = unpackTarball e release cwd builtPath in (Inr files, log)))"

text \<open>
  The result is the release with its navigation, \<^verbatim>\<open>undefined\<close> for a skipped release, or
  the error thrown; with it comes the log of the file-system calls made.
\<close>

definition unpackRelease ::
  "env \<Rightarrow> release \<Rightarrow> options
     \<Rightarrow> (error + (release \<times> navNode list option) option) \<times> phase list" where
  "unpackRelease e release' opts =
     (case resolveRelease e release' (force opts) (opt_prerelease opts) of
        None \<Rightarrow> (Inr None, [])
      | Some resolved_release \<Rightarrow>
          let cwd = join [contentPath opts, id' resolved_release];
              log0 = [Seq [Rm cwd, Mkdir cwd]];
              release = resolved_release\<lparr>src :=
                (case pathExists e (branch resolved_release) srcPath of
                   Some p \<Rightarrow> Some p
                 | None \<Rightarrow> pathExists e (branch resolved_release) builtPath)\<rparr>
          in case src release of
               None \<Rightarrow> (Inl (Error (''Could not find source dir for '' @ id' release)), log0)
             | Some src_dir \<Rightarrow>
                 if src_dir = [] then
                   (Inl (Error (''Could not find source dir for '' @ id' release)), log0)
                 else
                   let nav = getNav e
                         (case pathExists e (branch release) (join [srcPath, ''nav.yml'']) of
                            Some p \<Rightarrow> Some p
                          | None \<Rightarrow> pathExists e (branch release) (join [''docs'', ''nav.yml'']))
                         release;
                       (extracted, log1) = extractFiles e release cwd src_dir
                   in case extracted of
                        Inl err \<Rightarrow> (Inl err, log0 @ log1)
                      | Inr files \<Rightarrow>
                          let (indexes, log2) =
                                writeIndexes e release nav (baseNav opts) cwd (indexDirs files)
                          in case indexes of
                               Inl err \<Rightarrow> (Inl err, log0 @ log1 @ log2)
                             | Inr _ \<Rightarrow>
                                 let (merged, log3) =
                                       writeChangelog e release nav cwd ''CHANGELOG.md''
                                         (join [''using-npm'', ''changelog''])
                                 in case merged of
                                      Inl err \<Rightarrow> (Inl err, log0 @ log1 @ log2 @ log3)
                                    | Inr nav' \<Rightarrow>
                                        (Inr (Some (release, nchildren nav')),
                                         log0 @ log1 @ log2 @ log3))"

subsection \<open>The orders in which the calls of a log complete\<close>

text \<open>The ways of taking a sequence apart into two subsequences.\<close>

fun unshuffles :: "'a list \<Rightarrow> ('a list \<times> 'a list) list" where
  "unshuffles [] = [([], [])]"
| "unshuffles (x # xs) =
     concat (map (\<lambda>(ys, zs). [(x # ys, zs), (ys, x # zs)]) (unshuffles xs))"

text \<open>
  \<open>linearizes tr log\<close>: the sequence \<open>tr\<close> of completed calls is one the log admits. The
  calls of a \<open>Seq\<close> phase complete in their order, those of a \<open>Par\<close> phase in any order,
  and every call of such a phase completes before any call of the next phase. The calls
  of a \<open>Bg\<close> phase complete in any order among the calls of the phases after it.
\<close>

fun linearizes :: "fs_op list \<Rightarrow> phase list \<Rightarrow> bool" where
  "linearizes tr [] = (tr = [])"
| "linearizes tr (Seq ops # log) =
     (take (length ops) tr = ops \<and> linearizes (drop (length ops) tr) log)"
| "linearizes tr (Par ops # log) =
     (mset (take (length ops) tr) = mset ops \<and> linearizes (drop (length ops) tr) log)"
| "linearizes tr (Bg ops # log) =
     list_ex (\<lambda>(bg, fg). mset bg = mset ops \<and> linearizes fg log) (unshuffles tr)"

fun is_mkdir :: "fs_op \<Rightarrow> bool" where
  "is_mkdir (Mkdir d) = True"
| "is_mkdir _ = False"

fun is_write :: "fs_op \<Rightarrow> bool" where
  "is_write (WriteFile p c) = True"
| "is_write _ = False"

text \<open>The path a call is made on.\<close>

fun op_path :: "fs_op \<Rightarrow> string" where
  "op_path (Rm p) = p"
| "op_path (Mkdir p) = p"
| "op_path (WriteFile p c) = p"

subsection \<open>A sample release\<close>

text \<open>
  A release of the archive kind whose stored content address is the one its manifest
  resolves to, a branch-based one, and collaborators that answer with a small archive, a
  small remote tree and a navigation of two sections.
\<close>

definition sample_release :: release where
  "sample_release =
     \<lparr>id' = ''v9'', version = ''9.0.0'', branch = ''release/v9'',
      manifest = \<lparr>m_resolved = Some ''sha512-aaa'', m_from = Some ''npm@9.0.0''\<rparr>,
      resolved = Some ''sha512-aaa'', spec = None, useBranch = False, prerelease = False,
      url = ''/cli/v9'', urlPrefix = ''v9'', src = None\<rparr>"

definition sample_branch_release :: release where
  "sample_branch_release =
     \<lparr>id' = ''v6'', version = ''6.14.18'', branch = ''release/v6'',
      manifest = \<lparr>m_resolved = None, m_from = None\<rparr>,
      resolved = Some ''0000'', spec = None, useBranch = True, prerelease = False,
      url = ''/cli/v6'', urlPrefix = ''v6'', src = None\<rparr>"

definition sample_nav :: "navNode list" where
  "sample_nav =
     [NavNode ''CLI Commands'' ''/commands'' (Some ''Commands'') None
        (Some [NavNode ''npm'' ''/commands/npm'' None (Some ''javascript package manager'')
                 None]),
      NavNode ''Using npm'' ''/using-npm'' (Some ''Using'') None
        (Some [NavNode ''scripts'' ''/using-npm/scripts'' None None (Some [])])]"

definition sample_env :: env where
  "sample_env =
     \<lparr>getLatestSha = (\<lambda>branch. ''abc123''),
      getDirectory = (\<lambda>ref path.
        [\<lparr>dname = ''lib'', dsha = ''fff000''\<rparr>, \<lparr>dname = ''content'', dsha = ''abc123''\<rparr>]),
      getAllFiles = (\<lambda>sha.
        if sha = ''abc123''
        then [\<lparr>fpath = ''commands/npm.md'', fsha = ''b1''\<rparr>,
              \<lparr>fpath = ''using-npm/scripts.md'', fsha = ''b2''\<rparr>]
        else []),
      getFileSha = (\<lambda>sha. ''blob '' @ sha),
      getFileRef = (\<lambda>ref path. ''text''),
      pathExists = (\<lambda>ref path. if path = ''docs/lib/content'' then Some path else None),
      tarball = (\<lambda>spec resolved.
        [\<lparr>tpath = ''pkg-1.0.0/package.json'', tcontent = ''{}''\<rparr>,
         \<lparr>tpath = ''pkg-1.0.0/docs/lib/content/nav.yml'', tcontent = ''nav''\<rparr>,
         \<lparr>tpath = ''pkg-1.0.0/docs/lib/content/commands/npm.md'', tcontent = ''source''\<rparr>,
         \<lparr>tpath = ''pkg-1.0.0/docs/content/commands/npm.md'', tcontent = ''built''\<rparr>]),
      tarProgress = 0,
      tarIrregular = (\<lambda>cwd n path. None),
      yaml_parse = (\<lambda>text. Some sample_nav),
      transform_stream = (\<lambda>opts content. t_path opts @ '':'' @ content),
      transform_sync = (\<lambda>content opts. t_path opts @ '':'' @ content)\<rparr>"

definition sample_base_nav :: "navNode list" where
  "sample_base_nav =
     [NavNode ''npm CLI 8'' ''/cli/v8'' (Some ''v8'') None None,
      NavNode ''npm CLI 9'' ''/cli/v9'' (Some ''v9'') None None,
      NavNode ''npm CLI 6'' ''/cli/v6'' (Some ''v6'') None None]"



definition sample_options :: options where
  "sample_options =
     \<lparr>contentPath = ''content'', baseNav = sample_base_nav, force = False,
      opt_prerelease = False\<rparr>"

section \<open>Properties\<close>

subsection \<open>The resolver's two gates\<close>

text \<open>
  C1. \<^verbatim>\<open>resolveRelease\<close> answers \<^verbatim>\<open>null\<close> exactly when the release is a prerelease
  and the caller did not opt into prereleases, or the freshly resolved content address
  (the branch's latest commit for a branch-based release, the manifest's
  \<^verbatim>\<open>_resolved\<close> otherwise) equals the stored one and \<^verbatim>\<open>force\<close> is not set. In every
  other case it returns the release with \<^verbatim>\<open>resolved\<close> set to the fresh address (and
  \<^verbatim>\<open>spec\<close> to the manifest's \<^verbatim>\<open>_from\<close> when the release is not branch-based); so with
  \<^verbatim>\<open>force\<close> set, a release that passes the prerelease gate is never skipped.
\<close>

theorem resolveRelease_skip_iff:
  "(resolveRelease e r frc pre = None) =
     ((prerelease r \<and> \<not> pre) \<or>
      ((if useBranch r then Some (getLatestSha e (branch r)) else m_resolved (manifest r))
         = resolved r \<and> \<not> frc))
   \<and> (resolveRelease e r frc pre \<noteq> None \<longrightarrow>
        resolveRelease e r frc pre =
          Some (r\<lparr>resolved := (if useBranch r then Some (getLatestSha e (branch r))
                              else m_resolved (manifest r)),
                   spec := (if useBranch r then spec r else m_from (manifest r))\<rparr>))
   \<and> (\<not> (prerelease r \<and> \<not> pre) \<longrightarrow> resolveRelease e r True pre \<noteq> None)"
  by (simp add: resolveRelease_def Let_def)

theorem resolveRelease_skip_iff_witness:
  "resolveRelease sample_env sample_release False False = None
   \<and> resolveRelease sample_env sample_release True False =
       Some (sample_release\<lparr>resolved := Some ''sha512-aaa'', spec := Some ''npm@9.0.0''\<rparr>)
   \<and> resolveRelease sample_env (sample_release\<lparr>prerelease := True\<rparr>) True False = None"
  using resolveRelease_skip_iff [of sample_env sample_release False False]
    resolveRelease_skip_iff [of sample_env sample_release True False]
    resolveRelease_skip_iff [of sample_env "sample_release\<lparr>prerelease := True\<rparr>" True False]
  by (simp add: sample_release_def)

subsection \<open>Paths\<close>



















subsection \<open>Archive extraction\<close>


text \<open>
  The comparison goes through \<^verbatim>\<open>join\<close>, which normalises: for a directory with an empty,
  \<^verbatim>\<open>.\<close> or \<^verbatim>\<open>..\<close> segment it is not the comparison of the segments. The empty directory
  accepts the one-segment path \<^verbatim>\<open>pkg\<close>, and \<^verbatim>\<open>docs/./content\<close> accepts an entry below
  \<^verbatim>\<open>pkg/./docs/content\<close>.
\<close>

lemma tarball_filter_normalises:
  "tarball_filter [] ''pkg''
   \<and> take (length (split sep [])) (drop 1 (split sep ''pkg'')) \<noteq> split sep []
   \<and> tarball_filter ''docs/./content'' ''pkg/./docs/content/a.md''
   \<and> take (length (split sep ''docs/./content'')) (drop 1 (split sep ''pkg/./docs/content/a.md''))
       \<noteq> split sep ''docs/./content''"
  by code_simp







subsection \<open>The navigation rewrite\<close>

lemma rewriteUrls_urls:
  "map nurl (nodes_of (rewriteUrls release t)) = map (\<lambda>n. url release @ nurl n) (nodes_of t)"
proof (induction release t rule: rewriteUrls.induct)
  case (1 release)
  show ?case by simp
next
  case (2 release nodes)
  then show ?case
    by (induction nodes) (simp_all add: map_concat)
qed

lemma rewriteUrls_shape: "erase_urls (rewriteUrls release t) = erase_urls t"
proof (induction release t rule: rewriteUrls.induct)
  case (1 release)
  show ?case by simp
next
  case (2 release nodes)
  then show ?case by simp
qed

lemma rewriteUrls_child_counts:
  "map (\<lambda>n. map_option length (children n)) (nodes_of (rewriteUrls release t))
     = map (\<lambda>n. map_option length (children n)) (nodes_of t)"
proof (induction release t rule: rewriteUrls.induct)
  case (1 release)
  show ?case by simp
next
  case (2 release nodes)
  have len: "map_option length (rewriteUrls release c) = map_option length c" for c
    by (cases c) simp_all
  from 2 show ?case
    by (induction nodes) (simp_all add: map_concat len)
qed

text \<open>
  C3. Let \<open>t\<close> be the parsed navigation description and \<open>t'\<close> the children \<^verbatim>\<open>getNav\<close>
  returns. Node for node, in document order (top-level nodes and all descendants), the
  \<^verbatim>\<open>url\<close> in \<open>t'\<close> is \<^verbatim>\<open>release.url\<close> followed by the \<^verbatim>\<open>url\<close> in \<open>t\<close>; with the urls
  blanked the two trees are equal, so the order and number of children and every other
  field are unchanged; and every node's child sequence is missing in \<open>t'\<close> when it is
  missing in \<open>t\<close>, and has the same length (zero for an empty one) otherwise. The same
  holds at the top: a missing description stays missing, an empty one stays empty.
\<close>

theorem getNav_rewrites_every_url:
  "map nurl (nodes_of (nchildren (getNav e path release)))
     = map (\<lambda>n. url release @ nurl n)
         (nodes_of (yaml_parse e (getFileRef e (branch release) path)))
   \<and> erase_urls (nchildren (getNav e path release))
     = erase_urls (yaml_parse e (getFileRef e (branch release) path))
   \<and> map (\<lambda>n. map_option length (children n)) (nodes_of (nchildren (getNav e path release)))
     = map (\<lambda>n. map_option length (children n))
         (nodes_of (yaml_parse e (getFileRef e (branch release) path)))
   \<and> map_option length (nchildren (getNav e path release))
     = map_option length (yaml_parse e (getFileRef e (branch release) path))
   \<and> npath (getNav e path release) = path"
proof -
  have "map_option length (rewriteUrls release t) = map_option length t" for t
    by (cases t) simp_all
  then show ?thesis
    by (simp add: getNav_def rewriteUrls_urls rewriteUrls_shape rewriteUrls_child_counts)
qed

subsection \<open>The changelog\<close>

text \<open>
  C8. The replacement escapes a \<^verbatim>\<open>>\<close> only together with the character before it, and
  a character it has consumed is not looked at again. In \<^verbatim>\<open>a>>b\<close> the second \<^verbatim>\<open>>\<close> is
  preceded by \<^verbatim>\<open>>\<close>, not by a backslash, and is left as it is; a \<^verbatim>\<open>>\<close> that opens the text
  has no character before it and is left as well. The documented example, \<^verbatim>\<open>foo>bar\<close>,
  comes out as \<^verbatim>\<open>foo\>bar\<close>.
\<close>

theorem escape_leaves_gt_unescaped:
  "escape ''a>>b'' = ''a'' @ [backslash] @ ''>>b''
   \<and> escape ''>a'' = ''>a''
   \<and> escape ''foo>bar'' = ''foo'' @ [backslash] @ ''>bar''"
  by (simp add: backslash_def)

text \<open>
  C7, as the code has it. When the navigation has a last top-level section with a child
  sequence, \<^verbatim>\<open>writeChangelog\<close> returns the navigation with the same path and the same
  sections but the last; the last one keeps its title, url, short name and description,
  and its children are the former ones followed by one new leaf, titled
  \<^verbatim>\<open>Changelog\<close>, described as \<^verbatim>\<open>Changelog notes for each version\<close>, without short name
  or children, whose url is \<^verbatim>\<open>release.url\<close>, a slash, and the content path.
\<close>

theorem writeChangelog_appends_leaf:
  assumes "nchildren nav = Some sections" and "sections \<noteq> []"
    and "children (last sections) = Some cs"
  shows "\<exists>nav' section'.
      fst (writeChangelog e release nav cwd src_path content_path) = Inr nav'
    \<and> npath nav' = npath nav
    \<and> nchildren nav' = Some (butlast sections @ [section'])
    \<and> title section' = title (last sections) \<and> nurl section' = nurl (last sections)
    \<and> shortName section' = shortName (last sections)
    \<and> description section' = description (last sections)
    \<and> children section' =
        Some (cs @ [NavNode ''Changelog'' (url release @ ''/'' @ content_path) None
                      (Some ''Changelog notes for each version'') None])"
  using assms by (simp add: writeChangelog_def push_last_def Let_def)

theorem writeChangelog_appends_leaf_witness:
  "fst (writeChangelog sample_env sample_release \<lparr>npath = None, nchildren = Some sample_nav\<rparr>
         ''content/v9'' ''CHANGELOG.md'' ''using-npm/changelog'') =
     Inr \<lparr>npath = None, nchildren = Some
       [NavNode ''CLI Commands'' ''/commands'' (Some ''Commands'') None
          (Some [NavNode ''npm'' ''/commands/npm'' None (Some ''javascript package manager'')
                   None]),
        NavNode ''Using npm'' ''/using-npm'' (Some ''Using'') None
          (Some [NavNode ''scripts'' ''/using-npm/scripts'' None None (Some []),
                 NavNode ''Changelog'' ''/cli/v9/using-npm/changelog'' None
                   (Some ''Changelog notes for each version'') None])]\<rparr>"
proof -
  have a: "nchildren \<lparr>npath = None, nchildren = Some sample_nav\<rparr> = Some sample_nav"
    and b: "sample_nav \<noteq> []"
    and c: "children (last sample_nav) = Some [NavNode ''scripts'' ''/using-npm/scripts'' None None (Some [])]"
    by (simp_all add: sample_nav_def)
  obtain nav' section' where
    "fst (writeChangelog sample_env sample_release \<lparr>npath = None, nchildren = Some sample_nav\<rparr>
         ''content/v9'' ''CHANGELOG.md'' ''using-npm/changelog'') = Inr nav'"
    "npath nav' = npath \<lparr>npath = None, nchildren = Some sample_nav\<rparr>"
    "nchildren nav' = Some (butlast sample_nav @ [section'])"
    "title section' = title (last sample_nav)" "nurl section' = nurl (last sample_nav)"
    "shortName section' = shortName (last sample_nav)"
    "description section' = description (last sample_nav)"
    "children section' = Some ([NavNode ''scripts'' ''/using-npm/scripts'' None None (Some [])] @
       [NavNode ''Changelog'' (url sample_release @ ''/'' @ ''using-npm/changelog'') None
                      (Some ''Changelog notes for each version'') None])"
    using writeChangelog_appends_leaf [OF a b c, of sample_env sample_release "''content/v9''"
        "''CHANGELOG.md''" "''using-npm/changelog''"]
    by blast
  then show ?thesis
    by (cases section') (simp add: sample_nav_def sample_release_def)
qed

text \<open>
  C7 as stated gives the leaf the url \<^verbatim>\<open>release.url + contentPath\<close>. For the sample
  release the leaf's url is \<^verbatim>\<open>/cli/v9/using-npm/changelog\<close>, with the slash the template
  literal puts between the two.
\<close>

theorem changelog_url_counterexample:
  "fst (writeChangelog sample_env sample_release \<lparr>npath = None, nchildren = Some sample_nav\<rparr>
         ''content/v9'' ''CHANGELOG.md'' ''using-npm/changelog'') =
     Inr \<lparr>npath = None, nchildren = Some
       [NavNode ''CLI Commands'' ''/commands'' (Some ''Commands'') None
          (Some [NavNode ''npm'' ''/commands/npm'' None (Some ''javascript package manager'')
                   None]),
        NavNode ''Using npm'' ''/using-npm'' (Some ''Using'') None
          (Some [NavNode ''scripts'' ''/using-npm/scripts'' None None (Some []),
                 NavNode ''Changelog'' ''/cli/v9/using-npm/changelog'' None
                   (Some ''Changelog notes for each version'') None])]\<rparr>
   \<and> ''/cli/v9/using-npm/changelog'' \<noteq> url sample_release @ ''using-npm/changelog''"
  by (simp add: writeChangelog_def push_last_def Let_def sample_nav_def sample_release_def)

subsection \<open>Index pages\<close>

lemma set_uniq: "set (uniq xs) = set xs"
  by (induction xs) auto

lemma distinct_uniq: "distinct (uniq xs)"
  by (induction xs) (auto simp: set_uniq)

lemma dirname_not_Nil: "dirname p \<noteq> []"
proof (cases "p = []")
  case True
  then show ?thesis
    by (simp add: dirname_def)
next
  case False
  define r where "r = dropWhile (\<lambda>c. c \<noteq> sep) (dropWhile (\<lambda>c. c = sep) (rev (tl p)))"
  from False have "dirname p =
      (if r = [] then (if hd p = sep then ''/'' else ''.'')
       else if hd p = sep \<and> tl r = [] then ''//'' else hd p # rev (tl r))"
    by (simp only: dirname_def Let_def r_def if_False)
  then show ?thesis
    by (cases "r = []"; cases "hd p = sep"; cases "tl r = []") simp_all
qed

text \<open>
  As a list of strings, \<^verbatim>\<open>dirs\<close> has no duplicates: it holds the empty string and the
  \<^verbatim>\<open>dirname\<close> of every file of the list it is computed from.
\<close>

lemma indexDirs_distinct:
  "distinct (indexDirs files) \<and> set (indexDirs files) = insert [] (dirname ` set files)"
proof -
  have "[] \<notin> dirname ` set files"
    using dirname_not_Nil by (metis imageE)
  then show ?thesis
    by (simp add: indexDirs_def set_uniq distinct_uniq)
qed

lemma writeIndex_Inl: "writeIndex e release nav bn cwd dir = Inl err \<Longrightarrow> err = TypeError"
  by (auto simp: writeIndex_def navSection_def Let_def split: sum.splits option.splits if_splits)

text \<open>
  C5. The directories of the files extracted from an archive do not all get an index
  page. The list of files is read as soon as \<^verbatim>\<open>unpackTarball\<close> has returned, when \<^verbatim>\<open>tar\<close>
  has not reached all entries: in the sample run \<^verbatim>\<open>tar\<close> writes \<^verbatim>\<open>commands/npm.md\<close>, and
  the only index page written is the root's. Two entries of the list can also name one
  directory: a file at the top level gives the directories \<^verbatim>\<open>''\<close> and \<^verbatim>\<open>.\<close>, and with a
  navigation node for \<^verbatim>\<open>.\<close> both write the root's \<^verbatim>\<open>index.mdx\<close>.
\<close>

theorem index_misses_extracted_directory:
  "snd (unpackRelease sample_env sample_release (sample_options\<lparr>force := True\<rparr>)) =
     [Seq [Rm ''content/v9'', Mkdir ''content/v9''],
      Bg [WriteFile ''content/v9/commands/npm.md'' ''commands/npm.md:built''],
      Par [WriteFile ''content/v9/index.mdx'' (''index.mdx:'' @ indexBody)],
      Seq [WriteFile ''content/v9/using-npm/changelog.md'' ''using-npm/changelog:text'']]
   \<and> indexDirs [''README.md''] = [[], ''.'']
   \<and> writeIndexes sample_env sample_release
       \<lparr>npath = None, nchildren = Some [NavNode ''Home'' ''/cli/v9/.'' None None None]\<rparr>
       sample_base_nav ''content/v9'' (indexDirs [''README.md'']) =
       (Inr [''index.mdx'', ''index.mdx''],
        [Par [WriteFile ''content/v9/index.mdx'' (''index.mdx:'' @ indexBody),
              WriteFile ''content/v9/index.mdx'' (''index.mdx:'' @ indexBody)]])"
  by code_simp

lemma writeIndexes_Inl:
  assumes "d \<in> set dirs" and "navSection release nav bn d = Inr None"
  shows "fst (writeIndexes e release nav bn cwd dirs) = Inl TypeError"
proof -
  define indexes where "indexes = map (writeIndex e release nav bn cwd) dirs"
  from assms(2) have "writeIndex e release nav bn cwd d = Inl TypeError"
    by (simp add: writeIndex_def Let_def)
  with assms(1) have "Inl TypeError \<in> set indexes"
    by (force simp: indexes_def)
  then have "find isl indexes \<noteq> None"
    by (auto simp: find_None_iff)
  then obtain i where i: "find isl indexes = Some i"
    by blast
  then have "isl i" and "i \<in> set indexes"
    by (auto simp: find_Some_iff)
  then obtain d' err where "writeIndex e release nav bn cwd d' = Inl err" and "i = Inl err"
    by (auto simp: indexes_def isl_def)
  then have "projl i = TypeError"
    using writeIndex_Inl by fastforce
  with i show ?thesis
    by (simp add: writeIndexes_def Let_def indexes_def)
qed

text \<open>
  C6. For the root directory the node is the first entry of \<^verbatim>\<open>baseNav\<close> whose url has
  \<^verbatim>\<open>release.urlPrefix\<close> as its last segment; for another directory it is the first of
  the navigation's children whose url has the directory as its last segment. When no
  entry matches, the lookup answers nothing, and reading the title from it is a
  \<^verbatim>\<open>TypeError\<close>: the index generation fails with that error, the only kind it can
  fail with. With a match, the page is written with the node's title and short name.
\<close>

theorem navSection_first_match_or_crash:
  "(navSection release nav bn [] = Inr (Some n)) =
     (\<exists>i<length bn. bn ! i = n \<and> basename (nurl n) = urlPrefix release
        \<and> (\<forall>j<i. basename (nurl (bn ! j)) \<noteq> urlPrefix release))
   \<and> (navSection release nav bn [] = Inr None) =
       (\<forall>c \<in> set bn. basename (nurl c) \<noteq> urlPrefix release)
   \<and> (dir \<noteq> [] \<longrightarrow> nchildren nav = Some cs \<longrightarrow>
        (navSection release nav bn dir = Inr (Some n)) =
          (\<exists>i<length cs. cs ! i = n \<and> basename (nurl n) = dir
             \<and> (\<forall>j<i. basename (nurl (cs ! j)) \<noteq> dir))
        \<and> (navSection release nav bn dir = Inr None) =
            (\<forall>c \<in> set cs. basename (nurl c) \<noteq> dir))
   \<and> (navSection release nav bn dir = Inr None \<longrightarrow>
        writeIndex e release nav bn cwd dir = Inl TypeError)
   \<and> (navSection release nav bn dir = Inr (Some n) \<longrightarrow>
        writeIndex e release nav bn cwd dir =
          Inr (join [dir, ''index.mdx''],
               WriteFile (join [cwd, join [dir, ''index.mdx'']])
                 (transform_sync e indexBody
                    \<lparr>t_release = release, t_path = join [dir, ''index.mdx''],
                     t_frontmatter = Some \<lparr>github_path = npath nav, fm_title = title n,
                                           fm_shortName = shortName n\<rparr>\<rparr>)))
   \<and> (dir \<in> set dirs \<longrightarrow> navSection release nav bn dir = Inr None \<longrightarrow>
        fst (writeIndexes e release nav bn cwd dirs) = Inl TypeError)"
proof -
  have first: "(find P xs = Some n) =
      (\<exists>i<length xs. xs ! i = n \<and> P n \<and> (\<forall>j<i. \<not> P (xs ! j)))"
    for P and xs :: "navNode list"
    by (auto simp: find_Some_iff)
  have none: "(find P xs = None) = (\<forall>c \<in> set xs. \<not> P c)" for P and xs :: "navNode list"
    by (auto simp: find_None_iff)
  have root: "navSection release nav bn [] =
      Inr (find (\<lambda>c. basename (nurl c) = urlPrefix release) bn)"
    by (simp add: navSection_def)
  have sub: "navSection release nav bn dir = Inr (find (\<lambda>c. basename (nurl c) = dir) cs)"
    if "dir \<noteq> []" "nchildren nav = Some cs"
    using that by (simp add: navSection_def)
  have c1: "(navSection release nav bn [] = Inr (Some n)) =
     (\<exists>i<length bn. bn ! i = n \<and> basename (nurl n) = urlPrefix release
        \<and> (\<forall>j<i. basename (nurl (bn ! j)) \<noteq> urlPrefix release))"
    unfolding root sum.inject by (rule first)
  have c2: "(navSection release nav bn [] = Inr None) =
       (\<forall>c \<in> set bn. basename (nurl c) \<noteq> urlPrefix release)"
    unfolding root sum.inject by (rule none)
  have c3: "(navSection release nav bn dir = Inr (Some n)) =
          (\<exists>i<length cs. cs ! i = n \<and> basename (nurl n) = dir
             \<and> (\<forall>j<i. basename (nurl (cs ! j)) \<noteq> dir))"
    if "dir \<noteq> []" "nchildren nav = Some cs"
    unfolding sub [OF that] sum.inject by (rule first)
  have c4: "(navSection release nav bn dir = Inr None) =
            (\<forall>c \<in> set cs. basename (nurl c) \<noteq> dir)"
    if "dir \<noteq> []" "nchildren nav = Some cs"
    unfolding sub [OF that] sum.inject by (rule none)
  have c5: "writeIndex e release nav bn cwd dir = Inl TypeError"
    if "navSection release nav bn dir = Inr None"
    using that by (simp add: writeIndex_def Let_def)
  have c6: "writeIndex e release nav bn cwd dir =
          Inr (join [dir, ''index.mdx''],
               WriteFile (join [cwd, join [dir, ''index.mdx'']])
                 (transform_sync e indexBody
                    \<lparr>t_release = release, t_path = join [dir, ''index.mdx''],
                     t_frontmatter = Some \<lparr>github_path = npath nav, fm_title = title n,
                                           fm_shortName = shortName n\<rparr>\<rparr>))"
    if "navSection release nav bn dir = Inr (Some n)"
    using that by (simp add: writeIndex_def Let_def)
  from c1 c2 c3 c4 c5 c6 writeIndexes_Inl [of dir dirs release nav bn e cwd]
  show ?thesis
    by blast
qed

lemma sample_nav_rewritten:
  "rewriteUrls sample_release (Some sample_nav) = Some
     [NavNode ''CLI Commands'' ''/cli/v9/commands'' (Some ''Commands'') None
        (Some [NavNode ''npm'' ''/cli/v9/commands/npm'' None
                 (Some ''javascript package manager'') None]),
      NavNode ''Using npm'' ''/cli/v9/using-npm'' (Some ''Using'') None
        (Some [NavNode ''scripts'' ''/cli/v9/using-npm/scripts'' None None (Some [])])]"
  by (simp add: sample_nav_def sample_release_def)


theorem navSection_first_match_or_crash_witness:
  "navSection sample_release (getNav sample_env (Some ''docs/nav.yml'') sample_release)
     sample_base_nav [] = Inr (Some (NavNode ''npm CLI 9'' ''/cli/v9'' (Some ''v9'') None None))
   \<and> navSection sample_release (getNav sample_env (Some ''docs/nav.yml'') sample_release)
       sample_base_nav ''guide'' = Inr None
   \<and> writeIndex sample_env sample_release
       (getNav sample_env (Some ''docs/nav.yml'') sample_release)
       sample_base_nav ''content/v9'' ''guide'' = Inl TypeError
   \<and> fst (writeIndexes sample_env sample_release
       (getNav sample_env (Some ''docs/nav.yml'') sample_release)
       sample_base_nav ''content/v9'' [[], ''guide'']) = Inl TypeError"
proof -
  let ?nav = "getNav sample_env (Some ''docs/nav.yml'') sample_release"
  have cs: "nchildren ?nav = rewriteUrls sample_release (Some sample_nav)"
    by (simp add: getNav_def sample_env_def)
  have b: "basename ''/cli/v8'' = ''v8''" "basename ''/cli/v9'' = ''v9''"
    "basename ''/cli/v9/commands'' = ''commands''" "basename ''/cli/v9/using-npm'' = ''using-npm''"
    by code_simp+
  have root: "\<exists>i<length sample_base_nav.
      sample_base_nav ! i = NavNode ''npm CLI 9'' ''/cli/v9'' (Some ''v9'') None None
      \<and> basename (nurl (NavNode ''npm CLI 9'' ''/cli/v9'' (Some ''v9'') None None))
          = urlPrefix sample_release
      \<and> (\<forall>j<i. basename (nurl (sample_base_nav ! j)) \<noteq> urlPrefix sample_release)"
    by (rule exI [of _ 1]) (simp add: sample_base_nav_def sample_release_def b)
  have miss: "\<forall>c \<in> set (the (rewriteUrls sample_release (Some sample_nav))).
      basename (nurl c) \<noteq> ''guide''"
    by (simp only: sample_nav_rewritten option.sel) (simp add: b)
  note inst = navSection_first_match_or_crash [of sample_release ?nav sample_base_nav
      "NavNode ''npm CLI 9'' ''/cli/v9'' (Some ''v9'') None None" "''guide''"
      "the (rewriteUrls sample_release (Some sample_nav))" sample_env "''content/v9''"
      "[[], ''guide'']"]
  from inst root have 1: "navSection sample_release ?nav sample_base_nav [] =
      Inr (Some (NavNode ''npm CLI 9'' ''/cli/v9'' (Some ''v9'') None None))"
    by blast
  have "nchildren ?nav = Some (the (rewriteUrls sample_release (Some sample_nav)))"
    by (simp only: cs sample_nav_rewritten option.sel)
  with inst miss have 2: "navSection sample_release ?nav sample_base_nav ''guide'' = Inr None"
    by simp
  with inst have 3: "writeIndex sample_env sample_release ?nav sample_base_nav
      ''content/v9'' ''guide'' = Inl TypeError"
    and 4: "fst (writeIndexes sample_env sample_release ?nav sample_base_nav ''content/v9''
      [[], ''guide'']) = Inl TypeError"
    by simp_all
  from 1 2 3 4 show ?thesis
    by simp
qed

subsection \<open>Fetching the remote tree\<close>

lemma linearizes_two_Par:
  assumes "linearizes tr [Par as, Par bs]"
  shows "\<exists>xs ys. tr = xs @ ys \<and> mset xs = mset as \<and> mset ys = mset bs"
proof -
  from assms have a: "mset (take (length as) tr) = mset as"
    and b: "mset (take (length bs) (drop (length as) tr)) = mset bs"
    and c: "drop (length bs) (drop (length as) tr) = []"
    by simp_all
  from c have "take (length bs) (drop (length as) tr) = drop (length as) tr"
    by (metis append_Nil2 append_take_drop_id)
  with b have "mset (drop (length as) tr) = mset bs"
    by simp
  with a have "tr = take (length as) tr @ drop (length as) tr
      \<and> mset (take (length as) tr) = mset as \<and> mset (drop (length as) tr) = mset bs"
    by simp
  then show ?thesis
    by blast
qed

text \<open>
  C9. Let \<^verbatim>\<open>unpackTree\<close> return the paths of the remote files. In whatever order the
  calls it made complete, the completed calls are a run of directory creations followed
  by a run of file writes: the creations are those of the distinct directories
  \<^verbatim>\<open>join(cwd, dirname(path))\<close> of the files, each once; the writes are those of the
  files, in any order among themselves; and no write comes before a creation.
\<close>

theorem unpackTree_mkdirs_before_writes:
  assumes "unpackTree e release cwd dir = (Inr paths, log)" and "linearizes tr log"
  shows "\<exists>made written.
      tr = made @ written
    \<and> list_all is_mkdir made \<and> distinct made
    \<and> set made = (\<lambda>p. Mkdir (join [cwd, dirname p])) ` set paths
    \<and> list_all is_write written
    \<and> mset (map op_path written) = mset (map (\<lambda>p. join [cwd, p]) paths)
    \<and> (\<forall>i j. i < length tr \<and> j < length tr \<and> is_mkdir (tr ! i) \<and> is_write (tr ! j)
           \<longrightarrow> i < j)"
proof -
  from assms(1) obtain d where
    found: "find (\<lambda>p. dname p = last (split sep dir))
              (getDirectory e (branch release) (join (butlast (split sep dir)))) = Some d"
    by (auto simp: unpackTree_def Let_def split: option.splits)
  define files where "files = getAllFiles e (dsha d)"
  define dirs where "dirs = uniq (map (\<lambda>f. join [cwd, dirname (fpath f)]) files)"
  define writes where "writes = map (\<lambda>file.
      WriteFile (join [cwd, fpath file])
        (transform_sync e (getFileSha e (fsha file))
           \<lparr>t_release = release, t_path = fpath file, t_frontmatter = None\<rparr>)) files"
  from assms(1) found have paths: "paths = map fpath files"
    and log: "log = [Par (map Mkdir dirs), Par writes]"
    by (simp_all add: unpackTree_def Let_def files_def dirs_def writes_def)
  from assms(2) obtain made written where tr: "tr = made @ written"
    and made: "mset made = mset (map Mkdir dirs)" and written: "mset written = mset writes"
    unfolding log using linearizes_two_Par by blast
  have set_made: "set made = Mkdir ` set dirs"
    using made by (metis mset_eq_setD set_map)
  have mk: "list_all is_mkdir made"
    using set_made by (auto simp: list_all_iff)
  have "distinct (map Mkdir dirs)"
    by (simp add: distinct_map dirs_def distinct_uniq inj_on_def)
  then have dist: "distinct made"
    using made by (metis mset_eq_imp_distinct_iff)
  have dirs_set: "set made = (\<lambda>p. Mkdir (join [cwd, dirname p])) ` set paths"
    by (auto simp: set_made dirs_def set_uniq paths)
  have "set written = set writes"
    using written by (rule mset_eq_setD)
  then have wr: "list_all is_write written"
    by (auto simp: list_all_iff writes_def)
  have "mset (map op_path written) = mset (map op_path writes)"
    using written by (metis mset_map)
  also have "map op_path writes = map (\<lambda>p. join [cwd, p]) paths"
    by (simp add: writes_def paths)
  finally have paths_written:
    "mset (map op_path written) = mset (map (\<lambda>p. join [cwd, p]) paths)" .
  have order: "i < j" if "i < length tr" "j < length tr" "is_mkdir (tr ! i)" "is_write (tr ! j)"
    for i j
  proof (rule ccontr)
    assume "\<not> i < j"
    then have ji: "j \<le> i" by simp
    have j_written: "length made \<le> j"
    proof (rule ccontr)
      assume "\<not> length made \<le> j"
      then have "tr ! j = made ! j" and "made ! j \<in> set made"
        by (simp_all add: tr nth_append)
      with mk have "is_mkdir (tr ! j)"
        by (simp add: list_all_iff)
      with \<open>is_write (tr ! j)\<close> show False
        by (cases "tr ! j") simp_all
    qed
    with ji have "length made \<le> i" by simp
    with \<open>i < length tr\<close> have "tr ! i = written ! (i - length made)"
      and "written ! (i - length made) \<in> set written"
      by (simp_all add: tr nth_append)
    with wr have "is_write (tr ! i)"
      by (simp add: list_all_iff)
    with \<open>is_mkdir (tr ! i)\<close> show False
      by (cases "tr ! i") simp_all
  qed
  from tr mk dist dirs_set wr paths_written order show ?thesis
    by blast
qed


lemma sample_unpackTree:
  "unpackTree sample_env sample_branch_release ''content/v6'' ''docs/lib/content'' =
     (Inr [''commands/npm.md'', ''using-npm/scripts.md''],
      [Par [Mkdir ''content/v6/commands'', Mkdir ''content/v6/using-npm''],
       Par [WriteFile ''content/v6/commands/npm.md'' ''commands/npm.md:blob b1'',
            WriteFile ''content/v6/using-npm/scripts.md'' ''using-npm/scripts.md:blob b2'']])"
  by code_simp

theorem unpackTree_mkdirs_before_writes_witness:
  "linearizes
     [Mkdir ''content/v6/using-npm'', Mkdir ''content/v6/commands'',
      WriteFile ''content/v6/using-npm/scripts.md'' ''using-npm/scripts.md:blob b2'',
      WriteFile ''content/v6/commands/npm.md'' ''commands/npm.md:blob b1'']
     (snd (unpackTree sample_env sample_branch_release ''content/v6'' ''docs/lib/content''))
   \<and> (\<exists>made written.
        [Mkdir ''content/v6/using-npm'', Mkdir ''content/v6/commands'',
         WriteFile ''content/v6/using-npm/scripts.md'' ''using-npm/scripts.md:blob b2'',
         WriteFile ''content/v6/commands/npm.md'' ''commands/npm.md:blob b1'']
          = made @ written
        \<and> list_all is_mkdir made \<and> distinct made
        \<and> set made = (\<lambda>p. Mkdir (join [''content/v6'', dirname p]))
                         ` set [''commands/npm.md'', ''using-npm/scripts.md'']
        \<and> list_all is_write written)"
proof -
  let ?tr = "[Mkdir ''content/v6/using-npm'', Mkdir ''content/v6/commands'',
      WriteFile ''content/v6/using-npm/scripts.md'' ''using-npm/scripts.md:blob b2'',
      WriteFile ''content/v6/commands/npm.md'' ''commands/npm.md:blob b1'']"
  let ?log = "[Par [Mkdir ''content/v6/commands'', Mkdir ''content/v6/using-npm''],
       Par [WriteFile ''content/v6/commands/npm.md'' ''commands/npm.md:blob b1'',
            WriteFile ''content/v6/using-npm/scripts.md'' ''using-npm/scripts.md:blob b2'']]"
  have lin: "linearizes ?tr ?log"
    by simp
  from unpackTree_mkdirs_before_writes [OF sample_unpackTree lin] lin show ?thesis
    by (simp only: sample_unpackTree snd_conv) blast
qed

subsection \<open>The orchestrator\<close>

lemma unpackRelease_skip:
  "resolveRelease e r (force opts) (opt_prerelease opts) = None \<Longrightarrow>
   unpackRelease e r opts = (Inr None, [])"
  by (simp add: unpackRelease_def)

lemma unpackRelease_resolved:
  assumes res: "resolveRelease e r (force opts) (opt_prerelease opts) = Some rr"
    and cwd_def: "cwd = join [contentPath opts, id' rr]"
    and probe_def: "probe = (case pathExists e (branch rr) srcPath of
                       Some p \<Rightarrow> Some p
                     | None \<Rightarrow> pathExists e (branch rr) builtPath)"
    and rel_def: "rel = rr\<lparr>src := probe\<rparr>"
    and nav_def: "nav = getNav e
             (case pathExists e (branch rr) (join [srcPath, ''nav.yml'']) of
                Some p \<Rightarrow> Some p
              | None \<Rightarrow> pathExists e (branch rr) (join [''docs'', ''nav.yml'']))
             rel"
  shows "unpackRelease e r opts =
    (case probe of
       None \<Rightarrow> (Inl (Error (''Could not find source dir for '' @ id' rr)),
                 [Seq [Rm cwd, Mkdir cwd]])
     | Some s \<Rightarrow>
        if s = [] then (Inl (Error (''Could not find source dir for '' @ id' rr)),
                        [Seq [Rm cwd, Mkdir cwd]])
        else
          (case fst (extractFiles e rel cwd s) of
             Inl err \<Rightarrow> (Inl err, [Seq [Rm cwd, Mkdir cwd]] @ snd (extractFiles e rel cwd s))
           | Inr files \<Rightarrow>
              (case fst (writeIndexes e rel nav (baseNav opts) cwd (indexDirs files)) of
                 Inl err \<Rightarrow>
                   (Inl err, [Seq [Rm cwd, Mkdir cwd]] @ snd (extractFiles e rel cwd s)
                      @ snd (writeIndexes e rel nav (baseNav opts) cwd (indexDirs files)))
               | Inr idx \<Rightarrow>
                   (case fst (writeChangelog e rel nav cwd ''CHANGELOG.md''
                               (join [''using-npm'', ''changelog''])) of
                      Inl err \<Rightarrow>
                        (Inl err, [Seq [Rm cwd, Mkdir cwd]] @ snd (extractFiles e rel cwd s)
                           @ snd (writeIndexes e rel nav (baseNav opts) cwd (indexDirs files))
                           @ snd (writeChangelog e rel nav cwd ''CHANGELOG.md''
                               (join [''using-npm'', ''changelog''])))
                    | Inr nav' \<Rightarrow>
                        (Inr (Some (rel, nchildren nav')),
                         [Seq [Rm cwd, Mkdir cwd]] @ snd (extractFiles e rel cwd s)
                           @ snd (writeIndexes e rel nav (baseNav opts) cwd (indexDirs files))
                           @ snd (writeChangelog e rel nav cwd ''CHANGELOG.md''
                               (join [''using-npm'', ''changelog''])))))))"
  unfolding unpackRelease_def res option.case Let_def case_prod_beta
  by (simp add: cwd_def probe_def rel_def nav_def cong: option.case_cong sum.case_cong if_cong)


lemma unpackRelease_log_head:
  assumes "resolveRelease e r (force opts) (opt_prerelease opts) = Some rr"
  shows "\<exists>rest. snd (unpackRelease e r opts) =
      Seq [Rm (join [contentPath opts, id' rr]), Mkdir (join [contentPath opts, id' rr])] # rest"
  unfolding unpackRelease_resolved [OF assms refl refl refl refl]
  by (simp split: option.splits sum.splits)

lemma resolveRelease_keeps:
  "resolveRelease e r frc pre = Some rr \<Longrightarrow>
   useBranch rr = useBranch r \<and> branch rr = branch r \<and> id' rr = id' r"
  by (auto simp: resolveRelease_def Let_def split: if_splits)

lemma builtPath_eq: "builtPath = ''docs/content''"
  by code_simp

lemma unpackRelease_extracts:
  assumes res: "resolveRelease e r (force opts) (opt_prerelease opts) = Some rr"
    and probe: "(case pathExists e (branch rr) srcPath of
                  Some p \<Rightarrow> Some p
                | None \<Rightarrow> pathExists e (branch rr) builtPath) = Some s"
    and s: "s \<noteq> []"
  shows "(\<exists>rest. snd (unpackRelease e r opts) =
            Seq [Rm (join [contentPath opts, id' rr]), Mkdir (join [contentPath opts, id' rr])]
              # snd (extractFiles e (rr\<lparr>src := Some s\<rparr>) (join [contentPath opts, id' rr]) s)
              @ rest)
    \<and> (\<forall>rel n. fst (unpackRelease e r opts) = Inr (Some (rel, n)) \<longrightarrow> rel = rr\<lparr>src := Some s\<rparr>)"
  unfolding unpackRelease_resolved [OF res refl refl refl refl] probe
  using s by (simp split: sum.splits)

text \<open>
  C4. When the resolver answers \<^verbatim>\<open>null\<close>, \<^verbatim>\<open>unpackRelease\<close> returns \<^verbatim>\<open>undefined\<close> and its
  log is empty: no call to the file system is made, so no completed call exists.
  Conversely, whenever the log is not empty the resolver has returned a release, and
  the log starts with the removal and re-creation of the output directory.
\<close>

theorem unpackRelease_skip_touches_nothing:
  "(resolveRelease e r (force opts) (opt_prerelease opts) = None \<longrightarrow>
      unpackRelease e r opts = (Inr None, [])
      \<and> (\<forall>tr. linearizes tr (snd (unpackRelease e r opts)) \<longrightarrow> tr = []))
   \<and> (snd (unpackRelease e r opts) \<noteq> [] \<longrightarrow>
        resolveRelease e r (force opts) (opt_prerelease opts) \<noteq> None
        \<and> (\<exists>rest. snd (unpackRelease e r opts) =
              Seq [Rm (join [contentPath opts, id' r]), Mkdir (join [contentPath opts, id' r])]
                # rest))"
proof (cases "resolveRelease e r (force opts) (opt_prerelease opts)")
  case None
  then show ?thesis
    by (simp add: unpackRelease_skip)
next
  case (Some rr)
  with unpackRelease_log_head [OF Some] resolveRelease_keeps [OF Some] show ?thesis
    by simp
qed

lemma sample_skipped:
  "resolveRelease sample_env sample_release (force sample_options)
     (opt_prerelease sample_options) = None"
  by code_simp

lemma sample_forced:
  "unpackRelease sample_env sample_release (sample_options\<lparr>force := True\<rparr>) =
     (Inr (Some
        (sample_release\<lparr>spec := Some ''npm@9.0.0'', src := Some ''docs/lib/content''\<rparr>,
         Some
          [NavNode ''CLI Commands'' ''/cli/v9/commands'' (Some ''Commands'') None
             (Some [NavNode ''npm'' ''/cli/v9/commands/npm'' None
                      (Some ''javascript package manager'') None]),
           NavNode ''Using npm'' ''/cli/v9/using-npm'' (Some ''Using'') None
             (Some [NavNode ''scripts'' ''/cli/v9/using-npm/scripts'' None None (Some []),
                    NavNode ''Changelog'' ''/cli/v9/using-npm/changelog'' None
                      (Some ''Changelog notes for each version'') None])])),
      [Seq [Rm ''content/v9'', Mkdir ''content/v9''],
       Bg [WriteFile ''content/v9/commands/npm.md'' ''commands/npm.md:built''],
       Par [WriteFile ''content/v9/index.mdx'' (''index.mdx:'' @ indexBody)],
       Seq [WriteFile ''content/v9/using-npm/changelog.md'' ''using-npm/changelog:text'']])"
  by code_simp

theorem unpackRelease_skip_touches_nothing_witness:
  "unpackRelease sample_env sample_release sample_options = (Inr None, [])
   \<and> resolveRelease sample_env sample_release True False \<noteq> None
   \<and> (\<exists>rest. snd (unpackRelease sample_env sample_release (sample_options\<lparr>force := True\<rparr>))
         = Seq [Rm ''content/v9'', Mkdir ''content/v9''] # rest)"
proof -
  have started: "snd (unpackRelease sample_env sample_release (sample_options\<lparr>force := True\<rparr>))
      \<noteq> []"
    by (simp add: sample_forced)
  have cwd: "join [contentPath (sample_options\<lparr>force := True\<rparr>), id' sample_release]
      = ''content/v9''"
    by code_simp
  from unpackRelease_skip_touches_nothing [of sample_env sample_release sample_options]
    sample_skipped
  have "unpackRelease sample_env sample_release sample_options = (Inr None, [])"
    by simp
  moreover
  from unpackRelease_skip_touches_nothing [of sample_env sample_release
      "sample_options\<lparr>force := True\<rparr>"] started
  have "resolveRelease sample_env sample_release True False \<noteq> None
     \<and> (\<exists>rest. snd (unpackRelease sample_env sample_release (sample_options\<lparr>force := True\<rparr>))
         = Seq [Rm ''content/v9'', Mkdir ''content/v9''] # rest)"
    by (simp only: cwd) (simp add: sample_options_def)
  ultimately show ?thesis
    by simp
qed

text \<open>
  C10. Let the resolver return a release and the probe find the source directory \<open>s\<close>
  (\<open>srcPath\<close> if it exists, else \<open>builtPath\<close>), so that the run goes on to extract. For a
  release that is not branch-based, what \<^verbatim>\<open>unpackRelease\<close> starts after re-creating the
  output directory is \<^verbatim>\<open>tar\<close>'s extraction with the filter for \<^verbatim>\<open>docs/content\<close> and a strip
  count of 3, whatever \<open>s\<close> is: \<open>s\<close> reaches the extraction only as the \<^verbatim>\<open>src\<close> of the
  release handed to the transform. For a branch-based release it is the tree fetch for
  the directory \<open>s\<close>. Whenever a release is returned, its \<^verbatim>\<open>src\<close> is \<open>s\<close>. In the witness
  \<open>s\<close> is \<^verbatim>\<open>docs/lib/content\<close>; the archive has entries below \<^verbatim>\<open>docs/lib/content\<close> and
  below \<^verbatim>\<open>docs/content\<close>, and only the latter is written.
\<close>

theorem extraction_directory_by_kind:
  assumes res: "resolveRelease e r (force opts) (opt_prerelease opts) = Some rr"
    and probe: "(case pathExists e (branch r) srcPath of
                  Some p \<Rightarrow> Some p
                | None \<Rightarrow> pathExists e (branch r) builtPath) = Some s"
    and s: "s \<noteq> []"
  shows "(\<not> useBranch r \<longrightarrow>
           (\<exists>rest. snd (unpackRelease e r opts) =
              Seq [Rm (join [contentPath opts, id' r]), Mkdir (join [contentPath opts, id' r])]
                # Bg (snd (tar_x e
                       \<lparr>o_cwd = join [contentPath opts, id' r],
                        o_strip = 3,
                        o_transform = (\<lambda>path. transform_stream e
                           \<lparr>t_release = rr\<lparr>src := Some s\<rparr>, t_path = path,
                            t_frontmatter = None\<rparr>),
                        o_filter = tarball_filter ''docs/content''\<rparr>
                       (tarball e (spec rr) (resolved rr))))
                # rest))
    \<and> (useBranch r \<longrightarrow>
           (\<exists>rest. snd (unpackRelease e r opts) =
              Seq [Rm (join [contentPath opts, id' r]), Mkdir (join [contentPath opts, id' r])]
                # snd (unpackTree e (rr\<lparr>src := Some s\<rparr>) (join [contentPath opts, id' r]) s)
                @ rest))
    \<and> (\<forall>rel n. fst (unpackRelease e r opts) = Inr (Some (rel, n)) \<longrightarrow> rel = rr\<lparr>src := Some s\<rparr>)"
proof -
  from resolveRelease_keeps [OF res] have ku: "useBranch rr = useBranch r"
    and kb: "branch rr = branch r" and ki: "id' rr = id' r"
    by simp_all
  note ex = unpackRelease_extracts [OF res probe [folded kb] s, unfolded ki]
  from ex obtain rest where log: "snd (unpackRelease e r opts) =
      Seq [Rm (join [contentPath opts, id' r]), Mkdir (join [contentPath opts, id' r])]
        # snd (extractFiles e (rr\<lparr>src := Some s\<rparr>) (join [contentPath opts, id' r]) s) @ rest"
    by blast
  have parts: "length (split sep ''docs/content'') + 1 = 3"
    by code_simp
  have tar: "snd (extractFiles e (rr\<lparr>src := Some s\<rparr>) (join [contentPath opts, id' r]) s) =
      [Bg (snd (tar_x e
                 \<lparr>o_cwd = join [contentPath opts, id' r],
                  o_strip = 3,
                  o_transform = (\<lambda>path. transform_stream e
                     \<lparr>t_release = rr\<lparr>src := Some s\<rparr>, t_path = path, t_frontmatter = None\<rparr>),
                  o_filter = tarball_filter ''docs/content''\<rparr>
                 (tarball e (spec rr) (resolved rr))))]"
    if "\<not> useBranch r"
    using that ku
    by (simp add: extractFiles_def unpackTarball_def tarballOpts_def builtPath_eq
        case_prod_beta Let_def parts [simplified] numeral_3_eq_3)
  have tree: "snd (extractFiles e (rr\<lparr>src := Some s\<rparr>) (join [contentPath opts, id' r]) s) =
      snd (unpackTree e (rr\<lparr>src := Some s\<rparr>) (join [contentPath opts, id' r]) s)"
    if "useBranch r"
    using that ku by (simp add: extractFiles_def)
  from log tar tree ex show ?thesis
    by auto
qed


theorem extraction_directory_by_kind_witness:
  "(case pathExists sample_env (branch sample_release) srcPath of
      Some p \<Rightarrow> Some p
    | None \<Rightarrow> pathExists sample_env (branch sample_release) builtPath)
     = Some ''docs/lib/content''
   \<and> (\<exists>rest. snd (unpackRelease sample_env sample_release (sample_options\<lparr>force := True\<rparr>)) =
         Seq [Rm ''content/v9'', Mkdir ''content/v9'']
           # Bg [WriteFile ''content/v9/commands/npm.md'' ''commands/npm.md:built'']
           # rest)
   \<and> (\<exists>rest. snd (unpackRelease sample_env sample_branch_release sample_options) =
         Seq [Rm ''content/v6'', Mkdir ''content/v6'']
           # [Par [Mkdir ''content/v6/commands'', Mkdir ''content/v6/using-npm''],
              Par [WriteFile ''content/v6/commands/npm.md'' ''commands/npm.md:blob b1'',
                   WriteFile ''content/v6/using-npm/scripts.md'' ''using-npm/scripts.md:blob b2'']]
           @ rest)"
proof -
  let ?forced = "sample_options\<lparr>force := True\<rparr>"
  let ?rr = "sample_release\<lparr>spec := Some ''npm@9.0.0''\<rparr>"
  let ?rb = "sample_branch_release\<lparr>resolved := Some ''abc123''\<rparr>"
  have res: "resolveRelease sample_env sample_release (force ?forced) (opt_prerelease ?forced)
      = Some ?rr"
    by code_simp
  have probe: "(case pathExists sample_env (branch sample_release) srcPath of
        Some p \<Rightarrow> Some p
      | None \<Rightarrow> pathExists sample_env (branch sample_release) builtPath)
      = Some ''docs/lib/content''"
    by code_simp
  have kind: "\<not> useBranch sample_release"
    by code_simp
  have cwd: "join [contentPath ?forced, id' sample_release] = ''content/v9''"
    by code_simp
  have tar: "snd (tar_x sample_env
        \<lparr>o_cwd = ''content/v9'', o_strip = 3,
         o_transform = (\<lambda>path. transform_stream sample_env
            \<lparr>t_release = ?rr\<lparr>src := Some ''docs/lib/content''\<rparr>, t_path = path,
             t_frontmatter = None\<rparr>),
         o_filter = tarball_filter ''docs/content''\<rparr>
        (tarball sample_env (spec ?rr) (resolved ?rr)))
      = [WriteFile ''content/v9/commands/npm.md'' ''commands/npm.md:built'']"
    by code_simp
  have archive: "\<exists>rest. snd (unpackRelease sample_env sample_release ?forced) =
         Seq [Rm ''content/v9'', Mkdir ''content/v9'']
           # Bg [WriteFile ''content/v9/commands/npm.md'' ''commands/npm.md:built'']
           # rest"
    using extraction_directory_by_kind [OF res probe] kind
    by (simp only: cwd tar) simp
  have res_b: "resolveRelease sample_env sample_branch_release (force sample_options)
      (opt_prerelease sample_options) = Some ?rb"
    by code_simp
  have probe_b: "(case pathExists sample_env (branch sample_branch_release) srcPath of
        Some p \<Rightarrow> Some p
      | None \<Rightarrow> pathExists sample_env (branch sample_branch_release) builtPath)
      = Some ''docs/lib/content''"
    by code_simp
  have kind_b: "useBranch sample_branch_release"
    by code_simp
  have cwd_b: "join [contentPath sample_options, id' sample_branch_release] = ''content/v6''"
    by code_simp
  have tree_b: "snd (unpackTree sample_env (?rb\<lparr>src := Some ''docs/lib/content''\<rparr>)
        ''content/v6'' ''docs/lib/content'')
      = [Par [Mkdir ''content/v6/commands'', Mkdir ''content/v6/using-npm''],
         Par [WriteFile ''content/v6/commands/npm.md'' ''commands/npm.md:blob b1'',
              WriteFile ''content/v6/using-npm/scripts.md'' ''using-npm/scripts.md:blob b2'']]"
    by code_simp
  have tree: "\<exists>rest. snd (unpackRelease sample_env sample_branch_release sample_options) =
         Seq [Rm ''content/v6'', Mkdir ''content/v6'']
           # [Par [Mkdir ''content/v6/commands'', Mkdir ''content/v6/using-npm''],
              Par [WriteFile ''content/v6/commands/npm.md'' ''commands/npm.md:blob b1'',
                   WriteFile ''content/v6/using-npm/scripts.md'' ''using-npm/scripts.md:blob b2'']]
           @ rest"
    using extraction_directory_by_kind [OF res_b probe_b] kind_b
    by (simp only: cwd_b tree_b) simp
  from probe archive tree show ?thesis
    by (intro conjI)
qed

end
